theory Spec2Isabelle
  imports Complex_Main "HOL-Library.Multiset"
begin

section \<open>CustomBoxPlot: a shallow embedding of \<^verbatim>\<open>MatplotlibCustomPlot/CustomBoxPlot.py\<close>\<close>

text \<open>
  The class \<^verbatim>\<open>CustomBoxPlot\<close> owns a matplotlib axes and two parallel lists, the tick
  registry. Its method \<^verbatim>\<open>add_boxplot\<close> validates its arguments, broadcasts each
  scalar-or-sequence parameter to the length \<^verbatim>\<open>N = data.shape[0]\<close>, and draws one box per
  series.

  Conventions of the embedding.
  \<^item> Python values that can reach a parameter are the datatype \<open>pyval\<close>.
  \<^item> A Python float is a real number or nan: rounding and the infinities are outside the
    model. The data of an array are taken without nan.
  \<^item> The axes is observed through the list of calls issued to it, oldest first. The
    drawing primitives of matplotlib are taken to return.
  \<^item> numpy's reductions and the figure's \<^verbatim>\<open>add_subplot\<close> are library code: they are
    parameters of the model, and each may raise.
  \<^item> An exception leaves the mutations made before it in place, so a call yields an
    \<open>outcome\<close>: the renderer as the call left it, returned or raised.
\<close>

subsection \<open>Python values and the types \<^verbatim>\<open>isinstance\<close> is asked about\<close>

datatype pyval =
    PNone
  | PBool bool
  | PInt int
  | PFloat real
  | PStr string
  | PSeq "pyval list"   \<comment> \<open>a list, a tuple or any other non-string \<^verbatim>\<open>Sequence\<close>, by its items\<close>
  | PObject             \<comment> \<open>any other object; not a \<^verbatim>\<open>Sequence\<close>\<close>

text \<open>
  A Python class is given by its name, as the error messages print it, and by the view of
  its instances: \<open>as_instance t v = Some x\<close> exactly when \<^verbatim>\<open>isinstance(v, t)\<close>, and \<open>x\<close>
  is the value the code then works with. \<^verbatim>\<open>bool\<close> is a subclass of \<^verbatim>\<open>int\<close>, with
  \<^verbatim>\<open>True == 1\<close> and \<^verbatim>\<open>False == 0\<close>.
\<close>

record 'a pytype =
  type_name :: string
  as_instance :: "pyval \<Rightarrow> 'a option"

definition py_int :: "int pytype" where
  "py_int = \<lparr>type_name = ''int'',
     as_instance = (\<lambda>v. case v of PInt i \<Rightarrow> Some i
                              | PBool b \<Rightarrow> Some (if b then 1 else 0)
                              | _ \<Rightarrow> None)\<rparr>"

definition py_str :: "string pytype" where
  "py_str = \<lparr>type_name = ''str'',
     as_instance = (\<lambda>v. case v of PStr s \<Rightarrow> Some s | _ \<Rightarrow> None)\<rparr>"

definition py_bool :: "bool pytype" where
  "py_bool = \<lparr>type_name = ''bool'',
     as_instance = (\<lambda>v. case v of PBool b \<Rightarrow> Some b | _ \<Rightarrow> None)\<rparr>"

definition isinstance :: "pyval \<Rightarrow> 'a pytype \<Rightarrow> bool" where
  "isinstance v t = (as_instance t v \<noteq> None)"

text \<open>\<^verbatim>\<open>isinstance(value, Sequence)\<close>: a \<^verbatim>\<open>str\<close> is a \<^verbatim>\<open>Sequence\<close> of one-character strings.\<close>

fun is_Sequence :: "pyval \<Rightarrow> bool" where
  "is_Sequence (PSeq xs) = True"
| "is_Sequence (PStr s) = True"
| "is_Sequence _ = False"

fun items :: "pyval \<Rightarrow> pyval list" where
  "items (PSeq xs) = xs"
| "items (PStr s) = map (\<lambda>c. PStr [c]) s"
| "items _ = []"

subsection \<open>Exceptions\<close>

datatype py_error =
    TypeError_data
    \<comment> \<open>\<^verbatim>\<open>TypeError('Parameter data is not an array')\<close>\<close>
  | ValueError_ndim nat
    \<comment> \<open>\<^verbatim>\<open>ValueError\<close>: data must be 1 or 2-dimensional, not \<open>ndim\<close>-dimensional\<close>
  | ValueError_length string string nat nat
    \<comment> \<open>\<^verbatim>\<open>ValueError\<close> of \<^verbatim>\<open>convert2sequence\<close>: parameter name, type, \<open>N\<close>, length received\<close>
  | TypeError_param string string nat
    \<comment> \<open>\<^verbatim>\<open>TypeError\<close> of \<^verbatim>\<open>convert2sequence\<close>: parameter name, type, \<open>N\<close>\<close>
  | IndexError
    \<comment> \<open>a subscript out of range\<close>
  | LibraryError string
    \<comment> \<open>an exception raised inside numpy or matplotlib, by the name of its class,
        passed on as it is\<close>

text \<open>
  The errors \<^verbatim>\<open>add_boxplot\<close> raises by its own checks. The specification calls the two
  \<^verbatim>\<open>TypeError\<close>s InvalidArgument, the \<^verbatim>\<open>ValueError\<close> on the dimension InvalidShape and
  the \<^verbatim>\<open>ValueError\<close> on a length InvalidLength.
\<close>

fun is_validation_error :: "py_error \<Rightarrow> bool" where
  "is_validation_error TypeError_data = True"
| "is_validation_error (ValueError_ndim n) = True"
| "is_validation_error (ValueError_length name t N k) = True"
| "is_validation_error (TypeError_param name t N) = True"
| "is_validation_error IndexError = False"
| "is_validation_error (LibraryError m) = False"

definition and_then :: "'e + 'a \<Rightarrow> ('a \<Rightarrow> 'e + 'b) \<Rightarrow> 'e + 'b" where
  "and_then r f = (case r of Inl e \<Rightarrow> Inl e | Inr x \<Rightarrow> f x)"

text \<open>\<^verbatim>\<open>xs[i]\<close> for a literal or loop index \<open>i \<ge> 0\<close>.\<close>

definition subscript :: "'a list \<Rightarrow> nat \<Rightarrow> py_error + 'a" where
  "subscript xs i = (if i < length xs then Inr (xs ! i) else Inl IndexError)"

subsection \<open>\<^verbatim>\<open>convert2sequence\<close> (lines 127--138)\<close>

text \<open>The loop of lines 133--135 over the items of a sequence of the right length.\<close>

fun check_items :: "pyval list \<Rightarrow> nat \<Rightarrow> string \<Rightarrow> 'a pytype \<Rightarrow> py_error + 'a list" where
  "check_items [] N name itype = Inr []"
| "check_items (x # xs) N name itype =
     (case as_instance itype x of
        None \<Rightarrow> Inl (TypeError_param name (type_name itype) N)
      | Some y \<Rightarrow> and_then (check_items xs N name itype) (\<lambda>ys. Inr (y # ys)))"

definition convert2sequence ::
  "pyval \<Rightarrow> nat \<Rightarrow> string \<Rightarrow> 'a pytype \<Rightarrow> py_error + 'a list" where
  "convert2sequence v N name itype =
     (case as_instance itype v of
        Some x \<Rightarrow> Inr (replicate N x)
      | None \<Rightarrow>
          if is_Sequence v then
            if length (items v) \<noteq> N
            then Inl (ValueError_length name (type_name itype) N (length (items v)))
            else check_items (items v) N name itype
          else Inl (TypeError_param name (type_name itype) N))"

subsection \<open>The arguments of \<^verbatim>\<open>add_boxplot\<close>\<close>

text \<open>
  The data argument: anything that is not a \<^verbatim>\<open>numpy.ndarray\<close>, or an array of dimension
  0, 1, 2 (by its rows, all of one length) or \<open>k + 3\<close>.
\<close>

datatype pydata =
    NotNdarray
  | Array0 real
  | Array1 "real list"
  | Array2 "real list list"
  | ArrayN nat

fun ndim :: "pydata \<Rightarrow> nat" where
  "ndim NotNdarray = 0"
| "ndim (Array0 x) = 0"
| "ndim (Array1 xs) = 1"
| "ndim (Array2 rows) = 2"
| "ndim (ArrayN k) = k + 3"

text \<open>\<^verbatim>\<open>data.shape[0]\<close>, the \<open>N\<close> of line 149, where it exists.\<close>

fun shape0 :: "pydata \<Rightarrow> nat option" where
  "shape0 (Array1 xs) = Some (length xs)"
| "shape0 (Array2 rows) = Some (length rows)"
| "shape0 _ = None"

record args =
  position :: pyval
  label :: pyval
  box_color :: pyval
  average_color :: pyval
  linewidth :: pyval
  draw_whiskers :: pyval
  draw_average :: pyval
  print_average :: pyval

text \<open>A call that gives \<^verbatim>\<open>data\<close> and \<^verbatim>\<open>position\<close> only (lines 65--72).\<close>

definition default_args :: "pyval \<Rightarrow> args" where
  "default_args p =
     \<lparr>position = p, label = PNone, box_color = PStr ''black'', average_color = PStr ''red'',
      linewidth = PInt 2, draw_whiskers = PBool True, draw_average = PBool True,
      print_average = PBool False\<rparr>"

text \<open>Lines 140--141: an omitted \<^verbatim>\<open>label\<close> is a copy of \<^verbatim>\<open>position\<close>.\<close>

definition with_default_label :: "args \<Rightarrow> args" where
  "with_default_label a = (if label a = PNone then a\<lparr>label := position a\<rparr> else a)"

text \<open>The eight parameters after lines 150--157.\<close>

record sequences =
  positions :: "int list"
  labels :: "string list"
  box_colors :: "string list"
  average_colors :: "string list"
  linewidths :: "int list"
  whiskers_flags :: "bool list"
  average_flags :: "bool list"
  print_flags :: "bool list"

definition normalise :: "nat \<Rightarrow> args \<Rightarrow> py_error + sequences" where
  "normalise N a =
     and_then (convert2sequence (position a) N ''position'' py_int) (\<lambda>ps.
     and_then (convert2sequence (label a) N ''label'' py_str) (\<lambda>ls.
     and_then (convert2sequence (box_color a) N ''box_color'' py_str) (\<lambda>bs.
     and_then (convert2sequence (average_color a) N ''average_color'' py_str) (\<lambda>cs.
     and_then (convert2sequence (linewidth a) N ''linewidth'' py_int) (\<lambda>ws.
     and_then (convert2sequence (draw_whiskers a) N ''draw_whiskers'' py_bool) (\<lambda>dw.
     and_then (convert2sequence (draw_average a) N ''draw_average'' py_bool) (\<lambda>da.
     and_then (convert2sequence (print_average a) N ''print_average'' py_bool) (\<lambda>pa.
       Inr \<lparr>positions = ps, labels = ls, box_colors = bs, average_colors = cs,
            linewidths = ws, whiskers_flags = dw, average_flags = da,
            print_flags = pa\<rparr>))))))))"

text \<open>
  The arguments of the recursive call of lines 161--169, for the row \<open>index\<close>. Each is an
  item that passed its type check, so the call receives scalars; a \<^verbatim>\<open>bool\<close> given where an
  \<^verbatim>\<open>int\<close> is expected travels as its integer value, which every use treats alike.
\<close>

definition row_args :: "sequences \<Rightarrow> nat \<Rightarrow> args" where
  "row_args s index =
     \<lparr>position = PInt (positions s ! index), label = PStr (labels s ! index),
      box_color = PStr (box_colors s ! index),
      average_color = PStr (average_colors s ! index),
      linewidth = PInt (linewidths s ! index),
      draw_whiskers = PBool (whiskers_flags s ! index),
      draw_average = PBool (average_flags s ! index),
      print_average = PBool (print_flags s ! index)\<rparr>"

subsection \<open>Floats\<close>

text \<open>
  What the reductions of numpy return and what the code computes from it: a number or
  nan. Sum and difference are those of the numbers, and nan as soon as one side is nan.
\<close>

datatype pyfloat = Finite real | NaN

instantiation pyfloat :: "{plus, minus}"
begin

fun plus_pyfloat :: "pyfloat \<Rightarrow> pyfloat \<Rightarrow> pyfloat" where
  "plus_pyfloat (Finite a) (Finite b) = Finite (a + b)"
| "plus_pyfloat _ _ = NaN"

fun minus_pyfloat :: "pyfloat \<Rightarrow> pyfloat \<Rightarrow> pyfloat" where
  "minus_pyfloat (Finite a) (Finite b) = Finite (a - b)"
| "minus_pyfloat _ _ = NaN"

instance ..

end

subsection \<open>The renderer and its surface\<close>

text \<open>
  The calls on the axes. An \<open>x\<close> comes from the integer position and is a number; a \<open>y\<close>
  comes from the statistics and may be nan.
\<close>

datatype draw_call =
    Add_patch_Rectangle "real \<times> pyfloat" real pyfloat bool string int
    \<comment> \<open>\<^verbatim>\<open>Rectangle(xy, width, height, fill, edgecolor, linewidth)\<close>\<close>
  | Plot "real list" "pyfloat list" string int
    \<comment> \<open>\<^verbatim>\<open>plot(x, y, color, lw)\<close>\<close>
  | Text real pyfloat pyfloat string
    \<comment> \<open>\<^verbatim>\<open>text(x, y, f'{mean:.2f}', color)\<close>, centred, size 10, bold; the mean as a number\<close>
  | Set_xticks "int list"
  | Set_xticklabels "string list"

type_synonym axes = "draw_call list"

record renderer =
  ax :: axes
  current_positions :: "int list"
  current_ticklabels :: "string list"

datatype outcome = Returned renderer | Raised py_error renderer

fun state_after :: "outcome \<Rightarrow> renderer" where
  "state_after (Returned self) = self"
| "state_after (Raised e self) = self"

text \<open>
  \<^verbatim>\<open>__init__\<close> (lines 55--60). The figure is given by its method \<^verbatim>\<open>add_subplot\<close>, applied
  to the unpacked \<^verbatim>\<open>ax_location\<close>; what it raises is passed on.
\<close>

type_synonym figure = "pyval list \<Rightarrow> string + axes"

definition CustomBoxPlot_init :: "figure \<Rightarrow> pyval list \<Rightarrow> py_error + renderer" where
  "CustomBoxPlot_init figure ax_location =
     (case figure ax_location of
        Inl m \<Rightarrow> Inl (LibraryError m)
      | Inr handle \<Rightarrow>
          Inr \<lparr>ax = handle, current_positions = [], current_ticklabels = []\<rparr>)"

text \<open>One call on the axes.\<close>

definition issue :: "draw_call \<Rightarrow> renderer \<Rightarrow> renderer" where
  "issue c self = self\<lparr>ax := ax self @ [c]\<rparr>"

text \<open>An expression evaluated in the state \<open>self\<close>: its exception ends the call there.\<close>

definition raise_or :: "py_error + 'a \<Rightarrow> renderer \<Rightarrow> ('a \<Rightarrow> outcome) \<Rightarrow> outcome" where
  "raise_or r self k = (case r of Inl e \<Rightarrow> Raised e self | Inr x \<Rightarrow> k x)"

text \<open>Statements in sequence, and the loop \<^verbatim>\<open>for index in range(N)\<close>.\<close>

fun run :: "(renderer \<Rightarrow> outcome) list \<Rightarrow> renderer \<Rightarrow> outcome" where
  "run [] self = Returned self"
| "run (stmt # rest) self =
     (case stmt self of Raised e s \<Rightarrow> Raised e s | Returned s \<Rightarrow> run rest s)"

fun for_range :: "(nat \<Rightarrow> renderer \<Rightarrow> outcome) \<Rightarrow> nat list \<Rightarrow> renderer \<Rightarrow> outcome" where
  "for_range body [] self = Returned self"
| "for_range body (index # rest) self =
     (case body index self of
        Raised e s \<Rightarrow> Raised e s
      | Returned s \<Rightarrow> for_range body rest s)"

subsection \<open>numpy\<close>

record reductions =
  nanmean :: "real list \<Rightarrow> string + pyfloat"
  nanstd :: "real list \<Rightarrow> string + pyfloat"
  nanmin :: "real list \<Rightarrow> string + pyfloat"
  nanmax :: "real list \<Rightarrow> string + pyfloat"

definition reduce ::
  "(real list \<Rightarrow> string + pyfloat) \<Rightarrow> real list \<Rightarrow> py_error + pyfloat" where
  "reduce f xs = (case f xs of Inl m \<Rightarrow> Inl (LibraryError m) | Inr r \<Rightarrow> Inr r)"

text \<open>
  \<^verbatim>\<open>numpy.argsort\<close> of a list. numpy's default sort is not stable; on distinct keys, the
  only lists a renderer builds, every sort returns the same indices.
\<close>

definition argsort :: "int list \<Rightarrow> nat list" where
  "argsort xs = sort_key (\<lambda>i. xs ! i) [0..<length xs]"

text \<open>\<^verbatim>\<open>numpy.array(xs)[indices]\<close>.\<close>

definition take_items :: "'a list \<Rightarrow> nat list \<Rightarrow> py_error + 'a list" where
  "take_items xs indices =
     (if list_all (\<lambda>i. i < length xs) indices then Inr (map (\<lambda>i. xs ! i) indices)
      else Inl IndexError)"

subsection \<open>One series (lines 172--215)\<close>

text \<open>
  The statements of the body for 1-dimensional data, in the order of the source. Each
  subscript \<^verbatim>\<open>[0]\<close> is evaluated where the source evaluates it, so an \<^verbatim>\<open>IndexError\<close> keeps
  what was drawn before it.
\<close>

text \<open>Lines 186--187: the box.\<close>

definition draw_box :: "sequences \<Rightarrow> pyfloat \<Rightarrow> pyfloat \<Rightarrow> renderer \<Rightarrow> outcome" where
  "draw_box s box_start box_end self =
     raise_or
       (and_then (subscript (positions s) 0) (\<lambda>p.
        and_then (subscript (box_colors s) 0) (\<lambda>c.
        and_then (subscript (linewidths s) 0) (\<lambda>w.
          Inr (Add_patch_Rectangle (real_of_int p - 0.1, box_start) 0.2
                 (box_end - box_start) False c w)))))
       self (\<lambda>rect. Returned (issue rect self))"

text \<open>Lines 190--194: the whiskers, bottom bar, top bar, bottom cap, top cap.\<close>

definition whisker_calls ::
  "int \<Rightarrow> string \<Rightarrow> int \<Rightarrow> pyfloat \<Rightarrow> pyfloat \<Rightarrow> pyfloat \<Rightarrow> pyfloat \<Rightarrow> draw_call list"
  where
  "whisker_calls p c w box_start box_end whisker_min whisker_max =
     [Plot [real_of_int p, real_of_int p] [whisker_min, box_start] c w,
      Plot [real_of_int p, real_of_int p] [box_end, whisker_max] c w,
      Plot [real_of_int p - 0.1, real_of_int p + 0.1] [whisker_min, whisker_min] c w,
      Plot [real_of_int p - 0.1, real_of_int p + 0.1] [whisker_max, whisker_max] c w]"

definition draw_whisker_bars ::
  "sequences \<Rightarrow> pyfloat \<Rightarrow> pyfloat \<Rightarrow> pyfloat \<Rightarrow> pyfloat \<Rightarrow> renderer \<Rightarrow> outcome" where
  "draw_whisker_bars s box_start box_end whisker_min whisker_max self =
     raise_or (subscript (whiskers_flags s) 0) self (\<lambda>flag.
       if flag then
         raise_or
           (and_then (subscript (positions s) 0) (\<lambda>p.
            and_then (subscript (box_colors s) 0) (\<lambda>c.
            and_then (subscript (linewidths s) 0) (\<lambda>w.
              Inr (whisker_calls p c w box_start box_end whisker_min whisker_max)))))
           self (\<lambda>calls. Returned (self\<lparr>ax := ax self @ calls\<rparr>))
       else Returned self)"

text \<open>Lines 197--198: the average bar.\<close>

definition draw_average_bar :: "sequences \<Rightarrow> pyfloat \<Rightarrow> renderer \<Rightarrow> outcome" where
  "draw_average_bar s center self =
     raise_or (subscript (average_flags s) 0) self (\<lambda>flag.
       if flag then
         raise_or
           (and_then (subscript (positions s) 0) (\<lambda>p.
            and_then (subscript (average_colors s) 0) (\<lambda>c.
            and_then (subscript (linewidths s) 0) (\<lambda>w.
              Inr (Plot [real_of_int p - 0.1, real_of_int p + 0.1] [center, center] c w)))))
           self (\<lambda>call. Returned (issue call self))
       else Returned self)"

text \<open>Lines 201--202: the printed average.\<close>

definition print_average_text ::
  "sequences \<Rightarrow> pyfloat \<Rightarrow> pyfloat \<Rightarrow> renderer \<Rightarrow> outcome" where
  "print_average_text s center mean self =
     raise_or (subscript (print_flags s) 0) self (\<lambda>flag.
       if flag then
         raise_or
           (and_then (subscript (positions s) 0) (\<lambda>p.
            and_then (subscript (average_colors s) 0) (\<lambda>c.
              Inr (Text (real_of_int p + 0.2) center mean c))))
           self (\<lambda>call. Returned (issue call self))
       else Returned self)"

text \<open>
  Lines 205--215: the tick registry. The position is appended before \<^verbatim>\<open>label[0]\<close> is
  read; the two lists are then sorted into copies, which are pushed to the axes.
\<close>

definition update_ticks :: "sequences \<Rightarrow> renderer \<Rightarrow> outcome" where
  "update_ticks s self =
     raise_or (subscript (positions s) 0) self (\<lambda>p.
       if p \<notin> set (current_positions self) then
         (let self1 = self\<lparr>current_positions := current_positions self @ [p]\<rparr> in
          raise_or (subscript (labels s) 0) self1 (\<lambda>l.
            let self2 = self1\<lparr>current_ticklabels := current_ticklabels self1 @ [l]\<rparr>;
                sorted_indices = argsort (current_positions self2)
            in raise_or (take_items (current_positions self2) sorted_indices) self2
                 (\<lambda>sorted_positions.
               raise_or (take_items (current_ticklabels self2) sorted_indices) self2
                 (\<lambda>sorted_ticklabels.
                    Returned (issue (Set_xticklabels sorted_ticklabels)
                               (issue (Set_xticks sorted_positions) self2))))))
       else Returned self)"

definition draw_series :: "reductions \<Rightarrow> real list \<Rightarrow> sequences \<Rightarrow> renderer \<Rightarrow> outcome" where
  "draw_series np data s self =
     raise_or
       (and_then (reduce (nanmean np) data) (\<lambda>mean.
        and_then (reduce (nanstd np) data) (\<lambda>std.
        and_then (reduce (nanmin np) data) (\<lambda>min_val.
        and_then (reduce (nanmax np) data) (\<lambda>max_val.
          Inr (mean, std, min_val, max_val))))))
       self (\<lambda>(mean, std, min_val, max_val).
         let center = mean;
             box_start = mean - std;
             box_end = mean + std;
             whisker_min = min_val;
             whisker_max = max_val
         in run [draw_box s box_start box_end,
                 draw_whisker_bars s box_start box_end whisker_min whisker_max,
                 draw_average_bar s center,
                 print_average_text s center mean,
                 update_ticks s] self)"

subsection \<open>\<^verbatim>\<open>add_boxplot\<close> (lines 140--215)\<close>

text \<open>
  The branches follow the source: the default of \<^verbatim>\<open>label\<close> (140--141), the type of
  \<^verbatim>\<open>data\<close> (143--144), its dimension (146--147), \<^verbatim>\<open>data.shape[0]\<close> (149), which raises on
  the empty shape of a 0-dimensional array, the eight conversions (150--157), the recursion
  over the rows of a 2-dimensional array (159--170), and the body for one series.
\<close>

function add_boxplot :: "reductions \<Rightarrow> renderer \<Rightarrow> pydata \<Rightarrow> args \<Rightarrow> outcome" where
  "add_boxplot np self data a =
     (let a = with_default_label a in
      case data of
        NotNdarray \<Rightarrow> Raised TypeError_data self
      | ArrayN k \<Rightarrow> Raised (ValueError_ndim (k + 3)) self
      | Array0 x \<Rightarrow> Raised IndexError self
      | Array1 xs \<Rightarrow>
          raise_or (normalise (length xs) a) self (\<lambda>s. draw_series np xs s self)
      | Array2 rows \<Rightarrow>
          raise_or (normalise (length rows) a) self (\<lambda>s.
            for_range
              (\<lambda>index self. add_boxplot np self (Array1 (rows ! index)) (row_args s index))
              [0..<length rows] self))"
  by pat_completeness auto
termination
  by (relation "measure (\<lambda>(np, self, data, a). ndim data)") auto

declare add_boxplot.simps [simp del]

subsection \<open>Notions the properties are stated with\<close>

text \<open>The tick registry is well formed: two lists of one length, no position twice.\<close>

definition registry_ok :: "renderer \<Rightarrow> bool" where
  "registry_ok self =
     (length (current_positions self) = length (current_ticklabels self) \<and>
      distinct (current_positions self))"

text \<open>The tick locations and tick labels of the axes: what was set last.\<close>

definition xticks_of :: "axes \<Rightarrow> int list option" where
  "xticks_of calls =
     foldl (\<lambda>acc c. case c of Set_xticks t \<Rightarrow> Some t | _ \<Rightarrow> acc) None calls"

definition xticklabels_of :: "axes \<Rightarrow> string list option" where
  "xticklabels_of calls =
     foldl (\<lambda>acc c. case c of Set_xticklabels t \<Rightarrow> Some t | _ \<Rightarrow> acc) None calls"

text \<open>
  The axes shows the registry in order: its tick locations ascend, and the pairs of
  location and label are the pairs of the registry.
\<close>

definition ticks_in_order :: "renderer \<Rightarrow> bool" where
  "ticks_in_order self =
     (current_positions self = [] \<or>
      (case (xticks_of (ax self), xticklabels_of (ax self)) of
         (Some locs, Some texts) \<Rightarrow>
           sorted locs \<and> length locs = length texts \<and>
           mset (zip locs texts) =
             mset (zip (current_positions self) (current_ticklabels self))
       | _ \<Rightarrow> False))"

text \<open>Two states with the same registry and the same ticks on the axes.\<close>

definition same_ticks :: "renderer \<Rightarrow> renderer \<Rightarrow> bool" where
  "same_ticks self self' =
     (current_positions self' = current_positions self \<and>
      current_ticklabels self' = current_ticklabels self \<and>
      xticks_of (ax self') = xticks_of (ax self) \<and>
      xticklabels_of (ax self') = xticklabels_of (ax self))"


text \<open>The sequence \<^verbatim>\<open>[v, v, ..., v]\<close> of length \<open>N\<close>.\<close>

definition repeated :: "nat \<Rightarrow> pyval \<Rightarrow> pyval" where
  "repeated N v = PSeq (replicate N v)"

subsection \<open>Inputs of the worked examples\<close>

text \<open>A renderer as the constructor leaves it on a new axes.\<close>

definition fresh :: renderer where
  "fresh = \<lparr>ax = [], current_positions = [], current_ticklabels = []\<rparr>"

text \<open>
  numpy's reductions on data without nan: mean, population standard deviation, minimum
  and maximum. On an empty array \<^verbatim>\<open>numpy.nanmean\<close> and \<^verbatim>\<open>numpy.nanstd\<close> warn and return
  nan, and \<^verbatim>\<open>numpy.nanmin\<close> and \<^verbatim>\<open>numpy.nanmax\<close> raise a \<^verbatim>\<open>ValueError\<close>.
\<close>

definition numpy_nan_free :: reductions where
  "numpy_nan_free =
     \<lparr>nanmean = (\<lambda>xs. if xs = [] then Inr NaN
                      else Inr (Finite (sum_list xs / real (length xs)))),
      nanstd = (\<lambda>xs. if xs = [] then Inr NaN
                     else Inr (Finite (sqrt (sum_list
                            (map (\<lambda>x. (x - sum_list xs / real (length xs))\<^sup>2) xs)
                                      / real (length xs))))),
      nanmin = (\<lambda>xs. if xs = [] then Inl ''ValueError''
                     else Inr (Finite (fold min xs (hd xs)))),
      nanmax = (\<lambda>xs. if xs = [] then Inl ''ValueError''
                     else Inr (Finite (fold max xs (hd xs))))\<rparr>"

text \<open>
  A figure of matplotlib, as far as it is used: \<^verbatim>\<open>add_subplot\<close> without arguments returns
  a new axes on the whole figure, as for \<^verbatim>\<open>(1, 1, 1)\<close>. What it does with arguments is the
  parameter.
\<close>

definition matplotlib_figure :: "figure \<Rightarrow> figure" where
  "matplotlib_figure with_arguments arguments =
     (if arguments = [] then Inr [] else with_arguments arguments)"

text \<open>The eight parameters of a call with scalars, converted for \<open>N = 0\<close>.\<close>

definition no_items :: sequences where
  "no_items = \<lparr>positions = [], labels = [], box_colors = [], average_colors = [],
     linewidths = [], whiskers_flags = [], average_flags = [], print_flags = []\<rparr>"

text \<open>A call with an explicit label.\<close>

definition labelled_args :: "pyval \<Rightarrow> pyval \<Rightarrow> args" where
  "labelled_args p l = (default_args p)\<lparr>label := l\<rparr>"

text \<open>
  The renderer after \<^verbatim>\<open>add_boxplot(numpy.array([1., 3.]), p, l)\<close>: mean 2, standard
  deviation 1, minimum 1, maximum 3.
\<close>

definition box_at :: "int \<Rightarrow> string \<Rightarrow> renderer \<Rightarrow> renderer" where
  "box_at p l self =
     state_after (add_boxplot numpy_nan_free self (Array1 [1, 3])
       (labelled_args (PInt p) (PStr l)))"

section \<open>Properties\<close>

subsection \<open>The equations of \<^verbatim>\<open>add_boxplot\<close> by the kind of data\<close>

lemma add_boxplot_Array1:
  "add_boxplot np self (Array1 xs) a =
     raise_or (normalise (length xs) (with_default_label a)) self (\<lambda>s. draw_series np xs s self)"
  by (subst add_boxplot.simps) simp

lemma add_boxplot_Array2:
  "add_boxplot np self (Array2 rows) a =
     raise_or (normalise (length rows) (with_default_label a)) self (\<lambda>s.
       for_range (\<lambda>index self. add_boxplot np self (Array1 (rows ! index)) (row_args s index))
         [0..<length rows] self)"
  by (subst add_boxplot.simps) simp

lemma add_boxplot_other:
  "add_boxplot np self NotNdarray a = Raised TypeError_data self"
  "add_boxplot np self (ArrayN k) a = Raised (ValueError_ndim (k + 3)) self"
  "add_boxplot np self (Array0 x) a = Raised IndexError self"
  by (subst add_boxplot.simps, simp)+

lemma check_items_length:
  "check_items vs N name t = Inr xs \<Longrightarrow> length xs = length vs"
  by (induction vs arbitrary: xs) (auto simp: and_then_def split: option.splits sum.splits)

lemma convert2sequence_length:
  "convert2sequence v N name t = Inr xs \<Longrightarrow> length xs = N"
  by (auto simp: convert2sequence_def split: option.splits if_splits dest: check_items_length)

lemma check_items_validation:
  "check_items vs N name t = Inl e \<Longrightarrow> e = TypeError_param name (type_name t) N"
  by (induction vs) (auto simp: and_then_def split: option.splits sum.splits)

lemma convert2sequence_validation:
  "convert2sequence v N name t = Inl e \<Longrightarrow> is_validation_error e"
  by (auto simp: convert2sequence_def split: option.splits if_splits dest: check_items_validation)

lemma and_then_Inr:
  "and_then r f = Inr y \<longleftrightarrow> (\<exists>x. r = Inr x \<and> f x = Inr y)"
  by (cases r) (auto simp: and_then_def)

lemma and_then_Inl:
  "and_then r f = Inl e \<longleftrightarrow> (r = Inl e \<or> (\<exists>x. r = Inr x \<and> f x = Inl e))"
  by (cases r) (auto simp: and_then_def)

lemma normalise_lengths:
  assumes "normalise N a = Inr s"
  shows "length (positions s) = N" "length (labels s) = N" "length (box_colors s) = N"
    "length (average_colors s) = N" "length (linewidths s) = N"
    "length (whiskers_flags s) = N" "length (average_flags s) = N"
    "length (print_flags s) = N"
  using assms unfolding normalise_def
  by (auto simp: and_then_Inr dest: convert2sequence_length)

lemma normalise_validation:
  "normalise N a = Inl e \<Longrightarrow> is_validation_error e"
  unfolding normalise_def
  by (auto simp: and_then_Inl dest: convert2sequence_validation)

subsection \<open>The statements of one series\<close>

lemma subscript_0 [simp]:
  "subscript [] 0 = Inl IndexError" "subscript (x # xs) 0 = Inr x"
  by (simp_all add: subscript_def)

lemma raise_or_simps [simp]:
  "raise_or (Inl e) self k = Raised e self" "raise_or (Inr x) self k = k x"
  by (simp_all add: raise_or_def)

lemma and_then_simps [simp]:
  "and_then (Inl e) f = Inl e" "and_then (Inr x) f = f x"
  by (simp_all add: and_then_def)

lemma xticks_of_append [simp]:
  "xticks_of (cs @ [c]) = (case c of Set_xticks t \<Rightarrow> Some t | _ \<Rightarrow> xticks_of cs)"
  "xticklabels_of (cs @ [c]) = (case c of Set_xticklabels t \<Rightarrow> Some t | _ \<Rightarrow> xticklabels_of cs)"
  by (cases c; simp add: xticks_of_def xticklabels_of_def)+

lemma xticks_of_whiskers [simp]:
  "xticks_of (cs @ whisker_calls p c w a b lo hi) = xticks_of cs"
  "xticklabels_of (cs @ whisker_calls p c w a b lo hi) = xticklabels_of cs"
  by (simp_all add: xticks_of_def xticklabels_of_def whisker_calls_def)

lemma draw_box_cases:
  "(draw_box s a b self = Raised IndexError self) \<or>
   (\<exists>p c w. draw_box s a b self = Returned (issue (Add_patch_Rectangle (real_of_int p - 0.1, a) 0.2 (b - a) False c w) self))"
  unfolding draw_box_def
  by (cases "positions s"; cases "box_colors s"; cases "linewidths s") auto

lemma draw_whisker_bars_cases:
  "(draw_whisker_bars s a b lo hi self = Raised IndexError self) \<or>
   (draw_whisker_bars s a b lo hi self = Returned self) \<or>
   (\<exists>p c w. draw_whisker_bars s a b lo hi self = Returned (self\<lparr>ax := ax self @ whisker_calls p c w a b lo hi\<rparr>))"
  unfolding draw_whisker_bars_def
  by (cases "whiskers_flags s"; cases "positions s"; cases "box_colors s"; cases "linewidths s") auto

lemma draw_average_bar_cases:
  "(draw_average_bar s m self = Raised IndexError self) \<or>
   (draw_average_bar s m self = Returned self) \<or>
   (\<exists>x y c w. draw_average_bar s m self = Returned (issue (Plot x y c w) self))"
  unfolding draw_average_bar_def
  by (cases "average_flags s"; cases "positions s"; cases "average_colors s"; cases "linewidths s") auto

lemma print_average_text_cases:
  "(print_average_text s m m' self = Raised IndexError self) \<or>
   (print_average_text s m m' self = Returned self) \<or>
   (\<exists>x y z c. print_average_text s m m' self = Returned (issue (Text x y z c) self))"
  unfolding print_average_text_def
  by (cases "print_flags s"; cases "positions s"; cases "average_colors s") auto

lemma same_ticks_refl [simp]: "same_ticks self self"
  by (simp add: same_ticks_def)

lemma draw_box_same_ticks: "same_ticks self (state_after (draw_box s a b self))"
  using draw_box_cases [of s a b self] by (auto simp: same_ticks_def issue_def)

lemma draw_whisker_bars_same_ticks:
  "same_ticks self (state_after (draw_whisker_bars s a b lo hi self))"
  using draw_whisker_bars_cases [of s a b lo hi self] by (auto simp: same_ticks_def)

lemma draw_average_bar_same_ticks: "same_ticks self (state_after (draw_average_bar s m self))"
  using draw_average_bar_cases [of s m self] by (auto simp: same_ticks_def issue_def)

lemma print_average_text_same_ticks:
  "same_ticks self (state_after (print_average_text s m m' self))"
  using print_average_text_cases [of s m m' self] by (auto simp: same_ticks_def issue_def)

lemmas draw_statements_same_ticks =
  draw_box_same_ticks draw_whisker_bars_same_ticks draw_average_bar_same_ticks
  print_average_text_same_ticks

lemma draw_box_raise: "draw_box s a b self = Raised e self' \<Longrightarrow> e = IndexError"
  using draw_box_cases [of s a b self] by auto

lemma draw_whisker_bars_raise:
  "draw_whisker_bars s a b lo hi self = Raised e self' \<Longrightarrow> e = IndexError"
  using draw_whisker_bars_cases [of s a b lo hi self] by auto

lemma draw_average_bar_raise: "draw_average_bar s m self = Raised e self' \<Longrightarrow> e = IndexError"
  using draw_average_bar_cases [of s m self] by auto

lemma print_average_text_raise:
  "print_average_text s m m' self = Raised e self' \<Longrightarrow> e = IndexError"
  using print_average_text_cases [of s m m' self] by auto

lemmas draw_statements_raise =
  draw_box_raise draw_whisker_bars_raise draw_average_bar_raise print_average_text_raise

lemma take_items_raise: "take_items xs indices = Inl e \<Longrightarrow> e = IndexError"
  by (auto simp: take_items_def split: if_splits)

lemma update_ticks_raise:
  "update_ticks s self = Raised e self' \<Longrightarrow> e = IndexError"
  unfolding update_ticks_def Let_def
  by (cases "positions s"; cases "labels s")
     (auto simp: raise_or_def split: if_splits sum.splits dest: take_items_raise)

lemma run_raise:
  assumes "run stmts self = Raised e self'"
  shows "\<exists>stmt \<in> set stmts. \<exists>s. stmt s = Raised e self'"
  using assms
  by (induction stmts arbitrary: self) (auto split: outcome.splits)

lemma reduce_raise: "reduce f xs = Inl e \<Longrightarrow> \<not> is_validation_error e"
  by (auto simp: reduce_def split: sum.splits)

lemma draw_series_raise:
  assumes "draw_series np xs s self = Raised e self'"
  shows "\<not> is_validation_error e"
proof (cases "and_then (reduce (nanmean np) xs) (\<lambda>mean.
        and_then (reduce (nanstd np) xs) (\<lambda>std.
        and_then (reduce (nanmin np) xs) (\<lambda>min_val.
        and_then (reduce (nanmax np) xs) (\<lambda>max_val.
          Inr (mean, std, min_val, max_val)))))")
  case (Inl e')
  then have "\<not> is_validation_error e'"
    by (auto simp: and_then_Inl dest: reduce_raise)
  moreover from Inl assms have "e = e'"
    by (simp add: draw_series_def)
  ultimately show ?thesis by simp
next
  case (Inr q)
  obtain mean std lo hi where q: "q = (mean, std, lo, hi)"
    by (cases q) auto
  from assms Inr q obtain stmt s0 where
    "stmt \<in> set [draw_box s (mean - std) (mean + std),
                 draw_whisker_bars s (mean - std) (mean + std) lo hi,
                 draw_average_bar s mean, print_average_text s mean mean, update_ticks s]"
    "stmt s0 = Raised e self'"
    by (auto simp: draw_series_def Let_def dest!: run_raise simp del: run.simps)
  then have "e = IndexError"
    by (auto dest: draw_statements_raise update_ticks_raise)
  then show ?thesis by simp
qed

subsection \<open>Loops and the recursive call\<close>

lemma for_range_raise:
  assumes "for_range body idx self = Raised e self'"
  shows "\<exists>i \<in> set idx. \<exists>s. body i s = Raised e self'"
  using assms
  by (induction idx arbitrary: self) (auto split: outcome.splits)

lemma run_invariant:
  assumes "\<And>stmt s. stmt \<in> set stmts \<Longrightarrow> I s \<Longrightarrow> I (state_after (stmt s))" and "I self"
  shows "I (state_after (run stmts self))"
  using assms
proof (induction stmts arbitrary: self)
  case Nil
  then show ?case by simp
next
  case (Cons stmt rest)
  have step: "I (state_after (stmt self))"
    using Cons.prems by simp
  show ?case
  proof (cases "stmt self")
    case (Returned s)
    with step have "I s" by simp
    then have "I (state_after (run rest s))"
      using Cons.IH Cons.prems(1) by simp
    with Returned show ?thesis by simp
  next
    case (Raised e s)
    with step show ?thesis by simp
  qed
qed

lemma for_range_invariant:
  assumes "\<And>i s. i \<in> set idx \<Longrightarrow> I s \<Longrightarrow> I (state_after (body i s))" and "I self"
  shows "I (state_after (for_range body idx self))"
  using assms
proof (induction idx arbitrary: self)
  case Nil
  then show ?case by simp
next
  case (Cons i rest)
  have step: "I (state_after (body i self))"
    using Cons.prems by simp
  show ?case
  proof (cases "body i self")
    case (Returned s)
    with step have "I s" by simp
    then have "I (state_after (for_range body rest s))"
      using Cons.IH Cons.prems(1) by simp
    with Returned show ?thesis by simp
  next
    case (Raised e s)
    with step show ?thesis by simp
  qed
qed

lemma convert2sequence_scalar:
  "as_instance t v = Some x \<Longrightarrow> convert2sequence v N name t = Inr (replicate N x)"
  by (simp add: convert2sequence_def)

lemma as_instance_simps [simp]:
  "as_instance py_int (PInt i) = Some i"
  "as_instance py_int (PBool b) = Some (if b then 1 else 0)"
  "as_instance py_str (PStr s) = Some s"
  "as_instance py_bool (PBool b) = Some b"
  "as_instance py_int (PSeq vs) = None"
  "as_instance py_str (PSeq vs) = None"
  "as_instance py_bool (PSeq vs) = None"
  "as_instance py_str (PInt i) = None"
  "as_instance py_int PNone = None"
  "as_instance py_str PNone = None"
  "as_instance py_bool PNone = None"
  by (simp_all add: py_int_def py_str_def py_bool_def)

lemma type_name_simps [simp]:
  "type_name py_int = ''int''" "type_name py_str = ''str''" "type_name py_bool = ''bool''"
  by (simp_all add: py_int_def py_str_def py_bool_def)

lemma normalise_row_args:
  "normalise M (with_default_label (row_args s i)) =
     Inr \<lparr>positions = replicate M (positions s ! i), labels = replicate M (labels s ! i),
          box_colors = replicate M (box_colors s ! i),
          average_colors = replicate M (average_colors s ! i),
          linewidths = replicate M (linewidths s ! i),
          whiskers_flags = replicate M (whiskers_flags s ! i),
          average_flags = replicate M (average_flags s ! i),
          print_flags = replicate M (print_flags s ! i)\<rparr>"
  by (simp add: normalise_def with_default_label_def row_args_def convert2sequence_scalar)

lemma add_boxplot_row_raise:
  assumes "add_boxplot np self (Array1 xs) (row_args s i) = Raised e self'"
  shows "\<not> is_validation_error e"
  using assms
  by (simp add: add_boxplot_Array1 normalise_row_args draw_series_raise)

lemma add_boxplot_normalise_raises:
  assumes "shape0 data = Some N" and "normalise N (with_default_label a) = Inl e"
  shows "add_boxplot np self data a = Raised e self"
  using assms by (cases data) (simp_all add: add_boxplot_Array1 add_boxplot_Array2)

lemma normalise_bad_length_example:
  "normalise 2 (with_default_label (labelled_args (PSeq [PInt 1, PInt 2]) (PSeq [PStr ''a''])))
     = Inl (ValueError_length ''label'' ''str'' 2 1)"
  by (simp add: normalise_def with_default_label_def labelled_args_def default_args_def
      convert2sequence_def)

subsection \<open>Scalars of the expected type\<close>

lemma isinstance_iff: "isinstance v t \<longleftrightarrow> (\<exists>x. as_instance t v = Some x)"
  by (simp add: isinstance_def)

lemma isinstance_examples [simp]:
  "isinstance (PInt i) py_int" "isinstance (PStr s) py_str" "isinstance (PBool b) py_bool"
  "isinstance (PBool b) py_int"
  by (simp_all add: isinstance_def)

lemma normalise_scalars_0:
  assumes "isinstance (position a) py_int" "isinstance (label a) py_str"
    "isinstance (box_color a) py_str" "isinstance (average_color a) py_str"
    "isinstance (linewidth a) py_int" "isinstance (draw_whiskers a) py_bool"
    "isinstance (draw_average a) py_bool" "isinstance (print_average a) py_bool"
  shows "\<exists>s. normalise 0 a = Inr s"
  using assms
  by (auto simp: isinstance_iff normalise_def convert2sequence_scalar)

lemma with_default_label_given:
  "isinstance (label a) py_str \<Longrightarrow> with_default_label a = a"
  by (auto simp: with_default_label_def isinstance_iff)

subsection \<open>Broadcasting, empty data and evaluation\<close>

lemma check_items_replicate:
  "as_instance t v = Some x \<Longrightarrow> check_items (replicate n v) N name t = Inr (replicate n x)"
  by (induction n) simp_all

lemma convert2sequence_repeated:
  assumes "isinstance v t" and "as_instance t (repeated N v) = None"
  shows "convert2sequence (repeated N v) N name t = convert2sequence v N name t"
proof -
  from assms(1) obtain x where x: "as_instance t v = Some x"
    by (auto simp: isinstance_iff)
  have "convert2sequence (repeated N v) N name t = check_items (replicate N v) N name t"
    using assms(2) by (simp add: convert2sequence_def repeated_def)
  with x show ?thesis
    by (simp add: check_items_replicate convert2sequence_scalar)
qed

lemma repeated_no_instance [simp]:
  "as_instance py_int (repeated N v) = None"
  "as_instance py_str (repeated N v) = None"
  "as_instance py_bool (repeated N v) = None"
  by (simp_all add: repeated_def)

lemma add_boxplot_depends_on_normalise:
  assumes "shape0 data = Some N"
    and "normalise N (with_default_label a') = normalise N (with_default_label a)"
  shows "add_boxplot np self data a' = add_boxplot np self data a"
  using assms by (cases data) (simp_all add: add_boxplot_Array1 add_boxplot_Array2)

lemma draw_series_no_items:
  assumes "positions s = []"
    and "nanmean np xs = Inr m" "nanstd np xs = Inr sd" "nanmin np xs = Inr lo"
      "nanmax np xs = Inr hi"
  shows "draw_series np xs s self = Raised IndexError self"
  using assms by (simp add: draw_series_def reduce_def draw_box_def)

lemma draw_series_reduction_raises:
  assumes "nanmean np xs = Inl msg \<or> nanstd np xs = Inl msg \<or> nanmin np xs = Inl msg
      \<or> nanmax np xs = Inl msg"
  shows "\<exists>msg'. draw_series np xs s self = Raised (LibraryError msg') self"
proof -
  have "\<exists>msg'. and_then (reduce (nanmean np) xs) (\<lambda>mean.
        and_then (reduce (nanstd np) xs) (\<lambda>std.
        and_then (reduce (nanmin np) xs) (\<lambda>min_val.
        and_then (reduce (nanmax np) xs) (\<lambda>max_val.
          Inr (mean, std, min_val, max_val))))) = Inl (LibraryError msg')"
    using assms
    by (cases "nanmean np xs"; cases "nanstd np xs"; cases "nanmin np xs"; cases "nanmax np xs")
       (auto simp: reduce_def)
  then show ?thesis
    by (auto simp: draw_series_def)
qed

lemma normalise_0_example:
  "normalise 0 (with_default_label (labelled_args (PInt 5) (PStr ''a''))) = Inr no_items"
  by (simp add: normalise_def with_default_label_def labelled_args_def default_args_def
      convert2sequence_def no_items_def)

lemmas eval_defs = add_boxplot_Array1 add_boxplot_Array2 normalise_def with_default_label_def
  labelled_args_def default_args_def convert2sequence_def draw_series_def reduce_def
  draw_box_def draw_whisker_bars_def draw_average_bar_def
  print_average_text_def update_ticks_def issue_def whisker_calls_def argsort_def
  take_items_def fresh_def Let_def row_args_def

subsection \<open>Sorting the registry\<close>

lemma set_argsort [simp]: "set (argsort xs) = {0..<length xs}"
  by (simp add: argsort_def)

lemma length_argsort [simp]: "length (argsort xs) = length xs"
  by (simp add: argsort_def)

lemma take_items_argsort:
  "length ys = length xs \<Longrightarrow> take_items ys (argsort xs) = Inr (map (\<lambda>i. ys ! i) (argsort xs))"
  by (simp add: take_items_def list_all_iff)

lemma sorted_take_argsort: "sorted (map (\<lambda>i. xs ! i) (argsort xs))"
  unfolding argsort_def by (rule sorted_sort_key)

lemma mset_argsort: "mset (argsort xs) = mset [0..<length xs]"
  by (simp add: argsort_def)

lemma zip_take_argsort:
  assumes "length ys = length xs"
  shows "mset (zip (map (\<lambda>i. xs ! i) (argsort xs)) (map (\<lambda>i. ys ! i) (argsort xs)))
           = mset (zip xs ys)"
proof -
  have "zip (map (\<lambda>i. xs ! i) (argsort xs)) (map (\<lambda>i. ys ! i) (argsort xs))
      = map (\<lambda>i. (xs ! i, ys ! i)) (argsort xs)"
    by (intro nth_equalityI) simp_all
  moreover have "mset (map (\<lambda>i. (xs ! i, ys ! i)) (argsort xs))
      = mset (map (\<lambda>i. (xs ! i, ys ! i)) [0..<length xs])"
    by (simp only: mset_map mset_argsort)
  moreover have "map (\<lambda>i. (xs ! i, ys ! i)) [0..<length xs] = zip xs ys"
    using assms by (intro nth_equalityI) simp_all
  ultimately show ?thesis by simp
qed

lemma update_ticks_no_items:
  "positions s = [] \<Longrightarrow> update_ticks s self = Raised IndexError self"
  by (simp add: update_ticks_def)

lemma update_ticks_known:
  "positions s = p # ps \<Longrightarrow> p \<in> set (current_positions self)
     \<Longrightarrow> update_ticks s self = Returned self"
  by (simp add: update_ticks_def)

lemma update_ticks_new:
  assumes "positions s = p # ps" and "labels s = l # ls"
    and "p \<notin> set (current_positions self)"
    and "length (current_positions self) = length (current_ticklabels self)"
  shows "update_ticks s self = Returned
     \<lparr>ax = ax self @
        [Set_xticks (map (\<lambda>i. (current_positions self @ [p]) ! i)
           (argsort (current_positions self @ [p]))),
         Set_xticklabels (map (\<lambda>i. (current_ticklabels self @ [l]) ! i)
           (argsort (current_positions self @ [p])))],
      current_positions = current_positions self @ [p],
      current_ticklabels = current_ticklabels self @ [l]\<rparr>"
  using assms
  by (simp add: update_ticks_def Let_def take_items_argsort issue_def)

lemma update_ticks_returned:
  assumes "update_ticks s self = Returned self'"
  shows "\<exists>p ps. positions s = p # ps \<and>
     ((p \<in> set (current_positions self) \<and> self' = self) \<or>
      (p \<notin> set (current_positions self) \<and>
       (\<exists>l ls sp sl. labels s = l # ls \<and>
          current_positions self' = current_positions self @ [p] \<and>
          current_ticklabels self' = current_ticklabels self @ [l] \<and>
          ax self' = ax self @ [Set_xticks sp, Set_xticklabels sl])))"
proof (cases "positions s")
  case Nil
  with assms show ?thesis by (simp add: update_ticks_no_items)
next
  case (Cons p ps)
  show ?thesis
  proof (cases "p \<in> set (current_positions self)")
    case True
    with assms Cons show ?thesis by (simp add: update_ticks_known)
  next
    case False
    with assms Cons show ?thesis
      by (cases "labels s")
         (auto simp: update_ticks_def Let_def issue_def raise_or_def split: sum.splits)
  qed
qed


lemma outcome_case_id:
  "(case out of Returned x \<Rightarrow> run [] x | Raised e x \<Rightarrow> Raised e x) = out"
  by (cases out) simp_all

lemma draw_series_items:
  assumes "positions s = p # ps" "box_colors s = c # cs" "average_colors s = ac # acs"
    "linewidths s = w # ws" "whiskers_flags s = fw # fws" "average_flags s = fa # fas"
    "print_flags s = fp # fps"
    and "nanmean np xs = Inr mean" "nanstd np xs = Inr std" "nanmin np xs = Inr lo"
      "nanmax np xs = Inr hi"
  shows "draw_series np xs s self = update_ticks s
     (self\<lparr>ax := ax self @
        [Add_patch_Rectangle (real_of_int p - 0.1, mean - std) 0.2 (mean + std - (mean - std))
           False c w] @
        (if fw then
           [Plot [real_of_int p, real_of_int p] [lo, mean - std] c w,
            Plot [real_of_int p, real_of_int p] [mean + std, hi] c w,
            Plot [real_of_int p - 0.1, real_of_int p + 0.1] [lo, lo] c w,
            Plot [real_of_int p - 0.1, real_of_int p + 0.1] [hi, hi] c w]
         else []) @
        (if fa then [Plot [real_of_int p - 0.1, real_of_int p + 0.1] [mean, mean] ac w]
         else []) @
        (if fp then [Text (real_of_int p + 0.2) mean mean ac] else [])\<rparr>)"
  using assms
  by (simp add: draw_series_def reduce_def draw_box_def draw_whisker_bars_def
      draw_average_bar_def print_average_text_def issue_def whisker_calls_def Let_def
      outcome_case_id)

subsection \<open>Invariants of the renderer\<close>

lemma xticks_of_two [simp]:
  "xticks_of (cs @ [Set_xticks t, Set_xticklabels l]) = Some t"
  "xticklabels_of (cs @ [Set_xticks t, Set_xticklabels l]) = Some l"
  by (simp_all add: xticks_of_def xticklabels_of_def)

lemma draw_series_invariant:
  assumes resp: "\<And>st st'. same_ticks st st' \<Longrightarrow> I st \<Longrightarrow> I st'"
    and upd: "\<And>st. I st \<Longrightarrow> I (state_after (update_ticks s st))"
    and start: "I self"
  shows "I (state_after (draw_series np xs s self))"
proof (cases "and_then (reduce (nanmean np) xs) (\<lambda>mean.
        and_then (reduce (nanstd np) xs) (\<lambda>std.
        and_then (reduce (nanmin np) xs) (\<lambda>min_val.
        and_then (reduce (nanmax np) xs) (\<lambda>max_val.
          Inr (mean, std, min_val, max_val)))))")
  case (Inl e)
  with start show ?thesis by (simp add: draw_series_def)
next
  case (Inr q)
  obtain mean std lo hi where q: "q = (mean, std, lo, hi)"
    by (cases q) auto
  have "I (state_after (run [draw_box s (mean - std) (mean + std),
          draw_whisker_bars s (mean - std) (mean + std) lo hi,
          draw_average_bar s mean, print_average_text s mean mean, update_ticks s] self))"
  proof (rule run_invariant [where I = I, OF _ start])
    fix stmt st
    assume "stmt \<in> set [draw_box s (mean - std) (mean + std),
          draw_whisker_bars s (mean - std) (mean + std) lo hi,
          draw_average_bar s mean, print_average_text s mean mean, update_ticks s]"
      and "I st"
    then show "I (state_after (stmt st))"
      using resp [OF draw_box_same_ticks] resp [OF draw_whisker_bars_same_ticks]
        resp [OF draw_average_bar_same_ticks] resp [OF print_average_text_same_ticks] upd
      by auto
  qed
  with Inr q show ?thesis
    by (simp add: draw_series_def Let_def del: run.simps)
qed

lemma add_boxplot_1d_invariant:
  assumes resp: "\<And>st st'. same_ticks st st' \<Longrightarrow> I st \<Longrightarrow> I st'"
    and upd: "\<And>s st. length (labels s) = length (positions s) \<Longrightarrow> I st
        \<Longrightarrow> I (state_after (update_ticks s st))"
    and start: "I self"
  shows "I (state_after (add_boxplot np self (Array1 xs) a))"
proof (cases "normalise (length xs) (with_default_label a)")
  case (Inl e)
  with start show ?thesis by (simp add: add_boxplot_Array1)
next
  case (Inr s)
  then have "length (labels s) = length (positions s)"
    by (simp add: normalise_lengths)
  then have "I (state_after (draw_series np xs s self))"
    using resp upd start by (intro draw_series_invariant [where I = I]) auto
  with Inr show ?thesis by (simp add: add_boxplot_Array1)
qed

lemma add_boxplot_invariant:
  assumes resp: "\<And>st st'. same_ticks st st' \<Longrightarrow> I st \<Longrightarrow> I st'"
    and upd: "\<And>s st. length (labels s) = length (positions s) \<Longrightarrow> I st
        \<Longrightarrow> I (state_after (update_ticks s st))"
    and start: "I self"
  shows "I (state_after (add_boxplot np self data a))"
proof (cases data)
  case (Array1 xs)
  then show ?thesis
    using add_boxplot_1d_invariant [where I = I, OF resp upd start] by simp
next
  case (Array2 rows)
  show ?thesis
  proof (cases "normalise (length rows) (with_default_label a)")
    case (Inl e)
    with start Array2 show ?thesis by (simp add: add_boxplot_Array2)
  next
    case (Inr s)
    have "I (state_after (for_range
        (\<lambda>index self. add_boxplot np self (Array1 (rows ! index)) (row_args s index))
        [0..<length rows] self))"
    proof (rule for_range_invariant [where I = I, OF _ start])
      fix i st
      assume st: "I st"
      show "I (state_after (add_boxplot np st (Array1 (rows ! i)) (row_args s i)))"
        by (rule add_boxplot_1d_invariant [where I = I, OF resp upd st])
    qed
    with Inr Array2 show ?thesis by (simp add: add_boxplot_Array2)
  qed
qed (use start in \<open>simp_all add: add_boxplot_other\<close>)

lemma registry_ok_same_ticks: "same_ticks st st' \<Longrightarrow> registry_ok st \<Longrightarrow> registry_ok st'"
  by (simp add: same_ticks_def registry_ok_def)

lemma ticks_in_order_same_ticks:
  "same_ticks st st' \<Longrightarrow> ticks_in_order st \<Longrightarrow> ticks_in_order st'"
  by (auto simp: same_ticks_def ticks_in_order_def split: option.splits)

lemma update_ticks_registry_ok:
  assumes "length (labels s) = length (positions s)" and "registry_ok st"
  shows "registry_ok (state_after (update_ticks s st))"
proof (cases "positions s")
  case Nil
  with assms show ?thesis by (simp add: update_ticks_no_items)
next
  case (Cons p ps)
  with assms(1) obtain l ls where l: "labels s = l # ls"
    by (cases "labels s") auto
  show ?thesis
  proof (cases "p \<in> set (current_positions st)")
    case True
    with Cons assms show ?thesis by (simp add: update_ticks_known)
  next
    case False
    with Cons l assms(2) show ?thesis
      by (simp add: update_ticks_new registry_ok_def)
  qed
qed

lemma update_ticks_in_order:
  assumes "length (labels s) = length (positions s)"
    and "registry_ok st \<and> ticks_in_order st"
  shows "registry_ok (state_after (update_ticks s st)) \<and>
    ticks_in_order (state_after (update_ticks s st))"
proof (cases "positions s")
  case Nil
  with assms show ?thesis by (simp add: update_ticks_no_items)
next
  case (Cons p ps)
  with assms(1) obtain l ls where l: "labels s = l # ls"
    by (cases "labels s") auto
  show ?thesis
  proof (cases "p \<in> set (current_positions st)")
    case True
    with Cons assms show ?thesis by (simp add: update_ticks_known)
  next
    case False
    have len: "length (current_ticklabels st @ [l]) = length (current_positions st @ [p])"
      using assms(2) by (simp add: registry_ok_def)
    from False Cons l assms(2) show ?thesis
      using zip_take_argsort [OF len] sorted_take_argsort [of "current_positions st @ [p]"]
      by (simp add: update_ticks_new registry_ok_def ticks_in_order_def)
  qed
qed

lemma add_boxplot_registry_ok:
  "registry_ok self \<Longrightarrow> registry_ok (state_after (add_boxplot np self data a))"
  by (rule add_boxplot_invariant [where I = registry_ok])
     (auto intro: registry_ok_same_ticks update_ticks_registry_ok)

lemma add_boxplot_in_order:
  assumes "registry_ok self \<and> ticks_in_order self"
  shows "registry_ok (state_after (add_boxplot np self data a)) \<and>
    ticks_in_order (state_after (add_boxplot np self data a))"
  by (rule add_boxplot_invariant [where I = "\<lambda>st. registry_ok st \<and> ticks_in_order st"])
     (use assms in \<open>auto intro: registry_ok_same_ticks ticks_in_order_same_ticks
        dest: update_ticks_in_order\<close>)

subsection \<open>A call on one series that returns\<close>

lemma normalise_fields:
  assumes "normalise N a = Inr s"
  shows "convert2sequence (position a) N ''position'' py_int = Inr (positions s)"
    and "convert2sequence (label a) N ''label'' py_str = Inr (labels s)"
  using assms unfolding normalise_def by (auto simp: and_then_Inr)

lemma draw_series_returned:
  assumes ret: "draw_series np xs s self = Returned self'"
    and len: "length (box_colors s) = length (positions s)"
      "length (average_colors s) = length (positions s)"
      "length (linewidths s) = length (positions s)"
      "length (whiskers_flags s) = length (positions s)"
      "length (average_flags s) = length (positions s)"
      "length (print_flags s) = length (positions s)"
  shows "\<exists>p ps c cs ac acs w ws fw fws fa fas fp fps mean std lo hi.
     positions s = p # ps \<and> box_colors s = c # cs \<and> average_colors s = ac # acs \<and>
     linewidths s = w # ws \<and> whiskers_flags s = fw # fws \<and> average_flags s = fa # fas \<and>
     print_flags s = fp # fps \<and> nanmean np xs = Inr mean \<and> nanstd np xs = Inr std \<and>
     nanmin np xs = Inr lo \<and> nanmax np xs = Inr hi"
proof -
  have red: "\<not> (nanmean np xs = Inl msg \<or> nanstd np xs = Inl msg \<or> nanmin np xs = Inl msg
      \<or> nanmax np xs = Inl msg)" for msg
    using draw_series_reduction_raises [of np xs msg s self] ret by auto
  obtain mean where mean: "nanmean np xs = Inr mean"
    using red by (cases "nanmean np xs") auto
  obtain std where std: "nanstd np xs = Inr std"
    using red by (cases "nanstd np xs") auto
  obtain lo where lo: "nanmin np xs = Inr lo"
    using red by (cases "nanmin np xs") auto
  obtain hi where hi: "nanmax np xs = Inr hi"
    using red by (cases "nanmax np xs") auto
  have "positions s \<noteq> []"
    using draw_series_no_items [OF _ mean std lo hi, of s self] ret by auto
  then obtain p ps where p: "positions s = p # ps"
    by (cases "positions s") auto
  obtain c cs where c: "box_colors s = c # cs"
    using len(1) p by (cases "box_colors s") auto
  obtain ac acs where ac: "average_colors s = ac # acs"
    using len(2) p by (cases "average_colors s") auto
  obtain w ws where w: "linewidths s = w # ws"
    using len(3) p by (cases "linewidths s") auto
  obtain fw fws where fw: "whiskers_flags s = fw # fws"
    using len(4) p by (cases "whiskers_flags s") auto
  obtain fa fas where fa: "average_flags s = fa # fas"
    using len(5) p by (cases "average_flags s") auto
  obtain fp fps where fp: "print_flags s = fp # fps"
    using len(6) p by (cases "print_flags s") auto
  from p c ac w fw fa fp mean std lo hi show ?thesis by blast
qed

lemma add_boxplot_1d_returned:
  assumes "add_boxplot np self (Array1 xs) a = Returned self'"
  shows "\<exists>s. normalise (length xs) (with_default_label a) = Inr s \<and>
    draw_series np xs s self = Returned self'"
  using assms
  by (cases "normalise (length xs) (with_default_label a)") (simp_all add: add_boxplot_Array1)

lemma add_boxplot_1d_registry:
  assumes ret: "add_boxplot np self (Array1 xs) a = Returned self'"
    and pos: "as_instance py_int (position a) = Some p"
  shows "(p \<in> set (current_positions self) \<and>
      current_positions self' = current_positions self \<and>
      current_ticklabels self' = current_ticklabels self) \<or>
     (p \<notin> set (current_positions self) \<and>
      (\<exists>l. current_positions self' = current_positions self @ [p] \<and>
        current_ticklabels self' = current_ticklabels self @ [l] \<and>
        (\<forall>l'. as_instance py_str (label a) = Some l' \<longrightarrow> l = l')))"
proof -
  from ret obtain s where s: "normalise (length xs) (with_default_label a) = Inr s"
    and ser: "draw_series np xs s self = Returned self'"
    using add_boxplot_1d_returned by blast
  note len = normalise_lengths [OF s]
  from draw_series_returned [OF ser] len
  obtain q ps c cs ac acs w ws fw fws fa fas fp fps mean std lo hi where
    items: "positions s = q # ps" "box_colors s = c # cs" "average_colors s = ac # acs"
      "linewidths s = w # ws" "whiskers_flags s = fw # fws" "average_flags s = fa # fas"
      "print_flags s = fp # fps"
    and stats: "nanmean np xs = Inr mean" "nanstd np xs = Inr std" "nanmin np xs = Inr lo"
      "nanmax np xs = Inr hi"
    by auto
  have "position (with_default_label a) = position a"
    by (simp add: with_default_label_def)
  with normalise_fields(1) [OF s] pos have "positions s = replicate (length xs) p"
    by (simp add: convert2sequence_scalar)
  with items(1) have q: "q = p"
    by (cases "length xs") simp_all
  have lab: "labels s = replicate (length xs) l'" if "as_instance py_str (label a) = Some l'" for l'
  proof -
    from that have "label a \<noteq> PNone" by auto
    then have "label (with_default_label a) = label a"
      by (simp add: with_default_label_def)
    with normalise_fields(2) [OF s] that show ?thesis
      by (simp add: convert2sequence_scalar)
  qed
  obtain calls where "draw_series np xs s self = update_ticks s (self\<lparr>ax := ax self @ calls\<rparr>)"
    using draw_series_items [OF items stats, of self] by (rule that)
  with ser have upd: "update_ticks s (self\<lparr>ax := ax self @ calls\<rparr>) = Returned self'"
    by simp
  define mid where "mid = self\<lparr>ax := ax self @ calls\<rparr>"
  have mid: "update_ticks s mid = Returned self'"
    "current_positions mid = current_positions self"
    "current_ticklabels mid = current_ticklabels self"
    using upd by (simp_all add: mid_def)
  from update_ticks_returned [OF mid(1)] items(1) q mid(2,3)
  consider "p \<in> set (current_positions self)" "self' = mid"
    | l ls where "p \<notin> set (current_positions self)" "labels s = l # ls"
      "current_positions self' = current_positions self @ [p]"
      "current_ticklabels self' = current_ticklabels self @ [l]"
    by auto
  then show ?thesis
  proof cases
    case 1
    with mid show ?thesis by simp
  next
    case 2
    have "l = l'" if "as_instance py_str (label a) = Some l'" for l'
      using lab [OF that] 2(2) by (cases "length xs") simp_all
    with 2 show ?thesis by blast
  qed
qed

lemma count_list_distinct:
  "distinct xs \<Longrightarrow> x \<in> set xs \<Longrightarrow> count_list xs x = 1"
  by (induction xs) auto

lemma map_of_zip_snoc:
  "length ps = length ls \<Longrightarrow> p \<notin> set ps \<Longrightarrow> map_of (zip (ps @ [p]) (ls @ [l])) p = Some l"
  by (simp add: map_add_Some_iff map_of_zip_is_None)

subsection \<open>The worked examples, evaluated\<close>

lemma box_at_returned:
  "add_boxplot numpy_nan_free fresh (Array1 [1, 3]) (labelled_args (PInt p) (PStr l))
     = Returned (box_at p l fresh)"
  by (simp add: box_at_def eval_defs numpy_nan_free_def)

lemma box_at_again:
  "add_boxplot numpy_nan_free (box_at 3 ''c'' fresh) (Array1 [1, 3])
     (labelled_args (PInt 3) (PStr ''other''))
     = Returned (box_at 3 ''other'' (box_at 3 ''c'' fresh))"
  by (simp add: box_at_def eval_defs numpy_nan_free_def)

lemma fresh_in_order: "registry_ok fresh \<and> ticks_in_order fresh"
  by (simp add: registry_ok_def ticks_in_order_def fresh_def)

lemma box_at_in_order:
  "registry_ok self \<and> ticks_in_order self
     \<Longrightarrow> registry_ok (box_at p l self) \<and> ticks_in_order (box_at p l self)"
  unfolding box_at_def by (rule add_boxplot_in_order)

lemma three_boxes:
  "current_positions (box_at 2 ''b'' (box_at 1 ''a'' (box_at 3 ''c'' fresh))) = [3, 1, 2]"
  "current_ticklabels (box_at 2 ''b'' (box_at 1 ''a'' (box_at 3 ''c'' fresh)))
     = [''c'', ''a'', ''b'']"
  "xticks_of (ax (box_at 2 ''b'' (box_at 1 ''a'' (box_at 3 ''c'' fresh)))) = Some [1, 2, 3]"
  "xticklabels_of (ax (box_at 2 ''b'' (box_at 1 ''a'' (box_at 3 ''c'' fresh))))
     = Some [''a'', ''b'', ''c'']"
  by (simp_all add: box_at_def eval_defs numpy_nan_free_def xticks_of_def xticklabels_of_def
      upt_conv_Cons)

subsection \<open>Supporting facts of the claims\<close>

text \<open>A renderer that the constructor returns has an empty, well-formed registry.\<close>

lemma constructor_registry:
  assumes "CustomBoxPlot_init figure ax_location = Inr self"
  shows "figure ax_location = Inr (ax self)" and "current_positions self = []"
    and "current_ticklabels self = []" and "registry_ok self" and "ticks_in_order self"
  using assms
  by (auto simp: CustomBoxPlot_init_def registry_ok_def ticks_in_order_def split: sum.splits)

text \<open>
  With \<open>N = data.shape[0]\<close>, a scalar style option and the sequence of \<open>N\<close> copies of it
  have the same outcome.
\<close>

lemma scalar_same_as_repeated:
  assumes "shape0 data = Some N"
  shows
   "(isinstance (box_color a) py_str \<longrightarrow>
       add_boxplot np self data (a\<lparr>box_color := repeated N (box_color a)\<rparr>)
         = add_boxplot np self data a) \<and>
    (isinstance (average_color a) py_str \<longrightarrow>
       add_boxplot np self data (a\<lparr>average_color := repeated N (average_color a)\<rparr>)
         = add_boxplot np self data a) \<and>
    (isinstance (linewidth a) py_int \<longrightarrow>
       add_boxplot np self data (a\<lparr>linewidth := repeated N (linewidth a)\<rparr>)
         = add_boxplot np self data a) \<and>
    (isinstance (draw_whiskers a) py_bool \<longrightarrow>
       add_boxplot np self data (a\<lparr>draw_whiskers := repeated N (draw_whiskers a)\<rparr>)
         = add_boxplot np self data a) \<and>
    (isinstance (draw_average a) py_bool \<longrightarrow>
       add_boxplot np self data (a\<lparr>draw_average := repeated N (draw_average a)\<rparr>)
         = add_boxplot np self data a) \<and>
    (isinstance (print_average a) py_bool \<longrightarrow>
       add_boxplot np self data (a\<lparr>print_average := repeated N (print_average a)\<rparr>)
         = add_boxplot np self data a)"
proof -
  have 1: "add_boxplot np self data (a\<lparr>box_color := repeated N (box_color a)\<rparr>)
      = add_boxplot np self data a" if "isinstance (box_color a) py_str"
    using that
    by (intro add_boxplot_depends_on_normalise [OF assms])
       (simp add: normalise_def with_default_label_def convert2sequence_repeated)
  have 2: "add_boxplot np self data (a\<lparr>average_color := repeated N (average_color a)\<rparr>)
      = add_boxplot np self data a" if "isinstance (average_color a) py_str"
    using that
    by (intro add_boxplot_depends_on_normalise [OF assms])
       (simp add: normalise_def with_default_label_def convert2sequence_repeated)
  have 3: "add_boxplot np self data (a\<lparr>linewidth := repeated N (linewidth a)\<rparr>)
      = add_boxplot np self data a" if "isinstance (linewidth a) py_int"
    using that
    by (intro add_boxplot_depends_on_normalise [OF assms])
       (simp add: normalise_def with_default_label_def convert2sequence_repeated)
  have 4: "add_boxplot np self data (a\<lparr>draw_whiskers := repeated N (draw_whiskers a)\<rparr>)
      = add_boxplot np self data a" if "isinstance (draw_whiskers a) py_bool"
    using that
    by (intro add_boxplot_depends_on_normalise [OF assms])
       (simp add: normalise_def with_default_label_def convert2sequence_repeated)
  have 5: "add_boxplot np self data (a\<lparr>draw_average := repeated N (draw_average a)\<rparr>)
      = add_boxplot np self data a" if "isinstance (draw_average a) py_bool"
    using that
    by (intro add_boxplot_depends_on_normalise [OF assms])
       (simp add: normalise_def with_default_label_def convert2sequence_repeated)
  have 6: "add_boxplot np self data (a\<lparr>print_average := repeated N (print_average a)\<rparr>)
      = add_boxplot np self data a" if "isinstance (print_average a) py_bool"
    using that
    by (intro add_boxplot_depends_on_normalise [OF assms])
       (simp add: normalise_def with_default_label_def convert2sequence_repeated)
  from 1 2 3 4 5 6 show ?thesis by blast
qed

text \<open>Without rows and with eight scalars of the expected types, nothing happens.\<close>

lemma no_rows_no_effect:
  assumes "isinstance (position a) py_int" "isinstance (label a) py_str"
    "isinstance (box_color a) py_str" "isinstance (average_color a) py_str"
    "isinstance (linewidth a) py_int" "isinstance (draw_whiskers a) py_bool"
    "isinstance (draw_average a) py_bool" "isinstance (print_average a) py_bool"
  shows "add_boxplot np self (Array2 []) a = Returned self"
proof -
  from assms obtain s where "normalise 0 a = Inr s"
    using normalise_scalars_0 by blast
  with assms(2) show ?thesis
    by (simp add: add_boxplot_Array2 with_default_label_given)
qed

section \<open>The claims\<close>

text \<open>
  C3. Validation is all or nothing. Whenever a call of \<^verbatim>\<open>add_boxplot\<close> raises one of its
  validation errors (data that is no array, three or more dimensions, an item of the wrong
  type, a sequence whose length is not \<open>N\<close>), the renderer is as it was before the call:
  no drawing call was issued and the tick registry is unchanged. Data that is no array,
  data of three or more dimensions and a parameter that fails its conversion each raise
  their error in that way.
\<close>

theorem validation_all_or_nothing:
  "(add_boxplot np self data a = Raised e self' \<and> is_validation_error e \<longrightarrow> self' = self) \<and>
   add_boxplot np self NotNdarray a = Raised TypeError_data self \<and>
   add_boxplot np self (ArrayN k) a = Raised (ValueError_ndim (k + 3)) self \<and>
   (shape0 data = Some N \<and> normalise N (with_default_label a) = Inl e \<longrightarrow>
      add_boxplot np self data a = Raised e self \<and> is_validation_error e)"
proof -
  have "self' = self"
    if raised: "add_boxplot np self data a = Raised e self'" and val: "is_validation_error e"
  proof (cases data)
    case NotNdarray
    with raised show ?thesis by (simp add: add_boxplot_other)
  next
    case (Array0 x)
    with raised show ?thesis by (simp add: add_boxplot_other)
  next
    case (ArrayN k)
    with raised show ?thesis by (simp add: add_boxplot_other)
  next
    case (Array1 xs)
    show ?thesis
    proof (cases "normalise (length xs) (with_default_label a)")
      case (Inl e')
      with raised Array1 show ?thesis by (simp add: add_boxplot_Array1)
    next
      case (Inr s)
      with raised Array1 have "draw_series np xs s self = Raised e self'"
        by (simp add: add_boxplot_Array1)
      with val show ?thesis by (auto dest: draw_series_raise)
    qed
  next
    case (Array2 rows)
    show ?thesis
    proof (cases "normalise (length rows) (with_default_label a)")
      case (Inl e')
      with raised Array2 show ?thesis by (simp add: add_boxplot_Array2)
    next
      case (Inr s)
      with raised Array2 have "for_range
          (\<lambda>index self. add_boxplot np self (Array1 (rows ! index)) (row_args s index))
          [0..<length rows] self = Raised e self'"
        by (simp add: add_boxplot_Array2)
      then obtain i s0 where
        "add_boxplot np s0 (Array1 (rows ! i)) (row_args s i) = Raised e self'"
        by (auto dest!: for_range_raise)
      with val show ?thesis by (auto dest: add_boxplot_row_raise)
    qed
  qed
  then show ?thesis
    by (auto simp: add_boxplot_other add_boxplot_normalise_raises dest: normalise_validation)
qed

theorem validation_all_or_nothing_witness:
  "is_validation_error (ValueError_length ''label'' ''str'' 2 1) \<and>
   shape0 (Array2 [[0, 0, 0, 0], [1, 1, 1, 1]]) = Some 2 \<and>
   normalise 2 (with_default_label (labelled_args (PSeq [PInt 1, PInt 2]) (PSeq [PStr ''a''])))
     = Inl (ValueError_length ''label'' ''str'' 2 1) \<and>
   add_boxplot numpy_nan_free fresh (Array2 [[0, 0, 0, 0], [1, 1, 1, 1]])
     (labelled_args (PSeq [PInt 1, PInt 2]) (PSeq [PStr ''a'']))
     = Raised (ValueError_length ''label'' ''str'' 2 1) fresh"
  using validation_all_or_nothing [of numpy_nan_free fresh "Array2 [[0, 0, 0, 0], [1, 1, 1, 1]]"
      "labelled_args (PSeq [PInt 1, PInt 2]) (PSeq [PStr ''a''])"
      "ValueError_length ''label'' ''str'' 2 1" fresh 0 2]
    normalise_bad_length_example
  by simp

text \<open>
  C1. With \<^verbatim>\<open>label\<close> omitted the label is the position, as the claim says; but the copy is
  then converted as a \<^verbatim>\<open>str\<close>, which an integer is not. The call
  \<^verbatim>\<open>add_boxplot(numpy.array([1., 2., 3.]), 5)\<close> raises the \<^verbatim>\<open>TypeError\<close> of the parameter
  \<^verbatim>\<open>label\<close> and leaves the renderer as it was: no tick label \<open>5\<close> is registered.
\<close>

theorem omitted_label_raises:
  "label (with_default_label (default_args (PInt 5))) = PInt 5 \<and>
   add_boxplot np self (Array1 [1, 2, 3]) (default_args (PInt 5))
     = Raised (TypeError_param ''label'' ''str'' 3) self"
  by (simp add: add_boxplot_Array1 normalise_def with_default_label_def default_args_def
      convert2sequence_def)

text \<open>
  C2. For 1-dimensional data the code takes \<open>N\<close> from \<^verbatim>\<open>data.shape[0]\<close>, the number of
  samples, not 1. The call \<^verbatim>\<open>add_boxplot(numpy.array([1., 2., 3.]), [3], ['a'])\<close>, whose
  sequences have length 1, raises the \<^verbatim>\<open>ValueError\<close> on the length of \<^verbatim>\<open>position\<close>. The call
  \<^verbatim>\<open>add_boxplot(numpy.array([1., 3.]), [5, 7], ['a', 'b'])\<close>, whose sequences are as long as
  the data, is accepted and draws what \<^verbatim>\<open>add_boxplot(numpy.array([1., 3.]), 5, 'a')\<close> draws.
\<close>

theorem one_item_sequence_rejected:
  "add_boxplot np self (Array1 [1, 2, 3]) (labelled_args (PSeq [PInt 3]) (PSeq [PStr ''a'']))
     = Raised (ValueError_length ''position'' ''int'' 3 1) self \<and>
   add_boxplot numpy_nan_free fresh (Array1 [1, 3])
     (labelled_args (PSeq [PInt 5, PInt 7]) (PSeq [PStr ''a'', PStr ''b'']))
     = Returned (box_at 5 ''a'' fresh)"
  by (simp add: box_at_def eval_defs numpy_nan_free_def)

text \<open>
  C10. On a 2-dimensional array without rows, the call with a scalar position and nothing
  else, \<^verbatim>\<open>add_boxplot(numpy.empty((0, 4)), 5)\<close>, raises the \<^verbatim>\<open>TypeError\<close> of the parameter
  \<^verbatim>\<open>label\<close>: the omitted label is the integer position, which the conversion to \<^verbatim>\<open>str\<close>
  refuses for every \<open>N\<close>, as in C1. With a \<^verbatim>\<open>str\<close> label the same call returns and leaves the
  renderer as it was.
\<close>

theorem no_rows_default_call_raises:
  "add_boxplot np self (Array2 []) (default_args (PInt 5))
     = Raised (TypeError_param ''label'' ''str'' 0) self \<and>
   add_boxplot np self (Array2 []) (labelled_args (PInt 5) (PStr ''a'')) = Returned self"
  by (simp add: add_boxplot_Array2 normalise_def with_default_label_def labelled_args_def
      default_args_def convert2sequence_def)

text \<open>
  C7. A 1-dimensional array is one series, so the sequence of the claim has length 1. The
  code asks for a sequence as long as the data, as in C2: on
  \<^verbatim>\<open>numpy.array([1., 3.])\<close> the call with the scalar \<^verbatim>\<open>box_color='black'\<close> returns and draws,
  and the call with \<^verbatim>\<open>box_color=['black']\<close> raises the \<^verbatim>\<open>ValueError\<close> on the length.
\<close>

theorem one_series_repeated_rejected:
  "add_boxplot numpy_nan_free fresh (Array1 [1, 3]) (labelled_args (PInt 5) (PStr ''a''))
     = Returned (box_at 5 ''a'' fresh) \<and>
   ax (box_at 5 ''a'' fresh) \<noteq> [] \<and>
   add_boxplot numpy_nan_free fresh (Array1 [1, 3])
     ((labelled_args (PInt 5) (PStr ''a''))\<lparr>box_color := repeated 1 (PStr ''black'')\<rparr>)
     = Raised (ValueError_length ''box_color'' ''str'' 2 1) fresh"
  by (simp add: box_at_def eval_defs numpy_nan_free_def repeated_def)

text \<open>
  C9, as amended. On a 0-dimensional array every call raises \<^verbatim>\<open>IndexError\<close>, from
  \<^verbatim>\<open>data.shape[0]\<close>, and changes nothing. On an empty 1-dimensional array a call whose
  eight parameters pass their conversions does not reach \<^verbatim>\<open>position[0]\<close>: where the mean
  and the standard deviation of the empty array return and its minimum raises, as numpy
  does, the call raises what \<^verbatim>\<open>numpy.nanmin\<close> raised, before any drawing.
\<close>

theorem empty_data_raises:
  "add_boxplot np self (Array0 x) a = Raised IndexError self \<and>
   (normalise 0 (with_default_label a) = Inr s \<and> nanmean np [] = Inr m \<and>
    nanstd np [] = Inr sd \<and> nanmin np [] = Inl exc \<longrightarrow>
      add_boxplot np self (Array1 []) a = Raised (LibraryError exc) self)"
  by (simp add: add_boxplot_other add_boxplot_Array1 draw_series_def reduce_def)

theorem empty_data_raises_witness:
  "normalise 0 (with_default_label (labelled_args (PInt 5) (PStr ''a''))) = Inr no_items \<and>
   nanmean numpy_nan_free [] = Inr NaN \<and> nanstd numpy_nan_free [] = Inr NaN \<and>
   nanmin numpy_nan_free [] = Inl ''ValueError'' \<and>
   add_boxplot numpy_nan_free fresh (Array0 1) (labelled_args (PInt 5) (PStr ''a''))
     = Raised IndexError fresh \<and>
   add_boxplot numpy_nan_free fresh (Array1 []) (labelled_args (PInt 5) (PStr ''a''))
     = Raised (LibraryError ''ValueError'') fresh"
  using empty_data_raises [of numpy_nan_free fresh 1 "labelled_args (PInt 5) (PStr ''a'')"
      no_items NaN NaN "''ValueError''"]
    normalise_0_example
  by (simp add: numpy_nan_free_def)

text \<open>
  C9 as stated fails on the call \<^verbatim>\<open>add_boxplot(numpy.array([]), 5, 'a')\<close>, an empty
  1-dimensional array with a scalar position: it raises the \<^verbatim>\<open>ValueError\<close> of
  \<^verbatim>\<open>numpy.nanmin\<close> (line 175), not the \<^verbatim>\<open>IndexError\<close> of \<^verbatim>\<open>position[0]\<close> (line 186).
\<close>

theorem empty_data_value_error_counterexample:
  "add_boxplot numpy_nan_free fresh (Array1 []) (labelled_args (PInt 5) (PStr ''a''))
     = Raised (LibraryError ''ValueError'') fresh \<and>
   add_boxplot numpy_nan_free fresh (Array1 []) (labelled_args (PInt 5) (PStr ''a''))
     \<noteq> Raised IndexError fresh"
  by (simp add: add_boxplot_Array1 normalise_def with_default_label_def labelled_args_def
      default_args_def convert2sequence_def draw_series_def reduce_def numpy_nan_free_def)

text \<open>
  C4. The constructor has no check of its own: line 58 passes \<^verbatim>\<open>ax_location\<close> on to
  \<^verbatim>\<open>add_subplot\<close>. With \<^verbatim>\<open>ax_location = ()\<close>, which is no triple of positive integers,
  \<^verbatim>\<open>add_subplot()\<close> returns the axes of the whole figure and the constructor returns a
  renderer, where the claim and the docstring of the class have it fail.
\<close>

theorem constructor_accepts_empty_location:
  "CustomBoxPlot_init (matplotlib_figure with_arguments) [] = Inr fresh"
  by (simp add: CustomBoxPlot_init_def matplotlib_figure_def fresh_def)



text \<open>
  C5. If the registry is well formed before a call of \<^verbatim>\<open>add_boxplot\<close> (as it is after
  the constructor), it is well formed after it, whatever the data and whether the call
  returns or raises: the two lists have one length and no position occurs twice. Two calls
  on 1-dimensional data at the same scalar position \<open>p\<close> that both return: the second
  leaves the registry as the first left it, \<open>p\<close> occurs in it once, and when \<open>p\<close> was new
  to the first call, its label is the label of the first call.
\<close>

theorem registry_invariant_and_first_label:
  assumes "registry_ok self"
  shows "registry_ok (state_after (add_boxplot np self data a)) \<and>
    (as_instance py_int (position a1) = Some p \<and> as_instance py_int (position a2) = Some p \<and>
     add_boxplot np self (Array1 xs) a1 = Returned s1 \<and>
     add_boxplot np s1 (Array1 ys) a2 = Returned s2 \<longrightarrow>
       current_positions s2 = current_positions s1 \<and>
       current_ticklabels s2 = current_ticklabels s1 \<and>
       count_list (current_positions s2) p = 1 \<and>
       (p \<notin> set (current_positions self) \<and> as_instance py_str (label a1) = Some l \<longrightarrow>
          map_of (zip (current_positions s2) (current_ticklabels s2)) p = Some l))"
proof (intro conjI impI)
  show "registry_ok (state_after (add_boxplot np self data a))"
    using assms by (rule add_boxplot_registry_ok)
next
  assume h: "as_instance py_int (position a1) = Some p \<and>
     as_instance py_int (position a2) = Some p \<and>
     add_boxplot np self (Array1 xs) a1 = Returned s1 \<and>
     add_boxplot np s1 (Array1 ys) a2 = Returned s2"
  then have first: "add_boxplot np self (Array1 xs) a1 = Returned s1"
    and second: "add_boxplot np s1 (Array1 ys) a2 = Returned s2"
    and p1: "as_instance py_int (position a1) = Some p"
    and p2: "as_instance py_int (position a2) = Some p"
    by simp_all
  have ok1: "registry_ok s1"
    using add_boxplot_registry_ok [OF assms, of np "Array1 xs" a1] first by simp
  have in1: "p \<in> set (current_positions s1)"
    using add_boxplot_1d_registry [OF first p1] by auto
  have same: "current_positions s2 = current_positions s1 \<and>
      current_ticklabels s2 = current_ticklabels s1"
    using add_boxplot_1d_registry [OF second p2] in1 by auto
  then show "current_positions s2 = current_positions s1"
    and "current_ticklabels s2 = current_ticklabels s1"
    by simp_all
  show "count_list (current_positions s2) p = 1"
    using same in1 ok1 by (simp add: registry_ok_def count_list_distinct)
  show "map_of (zip (current_positions s2) (current_ticklabels s2)) p = Some l"
    if "p \<notin> set (current_positions self) \<and> as_instance py_str (label a1) = Some l"
  proof -
    from that add_boxplot_1d_registry [OF first p1]
    have "current_positions s1 = current_positions self @ [p]"
      and "current_ticklabels s1 = current_ticklabels self @ [l]"
      by auto
    moreover have "map_of (zip (current_positions self @ [p]) (current_ticklabels self @ [l])) p
        = Some l"
      using that assms by (intro map_of_zip_snoc) (simp_all add: registry_ok_def)
    ultimately show ?thesis
      using same by (simp only:)
  qed
qed

theorem registry_invariant_and_first_label_witness:
  "registry_ok fresh \<and>
   registry_ok (state_after (add_boxplot numpy_nan_free fresh
     (Array2 [[0, 0, 0, 0], [1, 1, 1, 1]])
     (labelled_args (PSeq [PInt 1, PInt 2]) (PSeq [PStr ''a'', PStr ''b''])))) \<and>
   as_instance py_int (position (labelled_args (PInt 3) (PStr ''c''))) = Some 3 \<and>
   as_instance py_int (position (labelled_args (PInt 3) (PStr ''other''))) = Some 3 \<and>
   add_boxplot numpy_nan_free fresh (Array1 [1, 3]) (labelled_args (PInt 3) (PStr ''c''))
     = Returned (box_at 3 ''c'' fresh) \<and>
   add_boxplot numpy_nan_free (box_at 3 ''c'' fresh) (Array1 [1, 3])
     (labelled_args (PInt 3) (PStr ''other''))
     = Returned (box_at 3 ''other'' (box_at 3 ''c'' fresh)) \<and>
   3 \<notin> set (current_positions fresh) \<and>
   as_instance py_str (label (labelled_args (PInt 3) (PStr ''c''))) = Some ''c'' \<and>
   current_positions (box_at 3 ''other'' (box_at 3 ''c'' fresh))
     = current_positions (box_at 3 ''c'' fresh) \<and>
   current_ticklabels (box_at 3 ''other'' (box_at 3 ''c'' fresh))
     = current_ticklabels (box_at 3 ''c'' fresh) \<and>
   count_list (current_positions (box_at 3 ''other'' (box_at 3 ''c'' fresh))) 3 = 1 \<and>
   map_of (zip (current_positions (box_at 3 ''other'' (box_at 3 ''c'' fresh)))
     (current_ticklabels (box_at 3 ''other'' (box_at 3 ''c'' fresh)))) 3 = Some ''c''"
proof -
  have ok: "registry_ok fresh"
    by (simp add: registry_ok_def fresh_def)
  have start: "3 \<notin> set (current_positions fresh)"
    by (simp add: fresh_def)
  have args: "as_instance py_int (position (labelled_args (PInt 3) (PStr ''c''))) = Some 3"
    "as_instance py_int (position (labelled_args (PInt 3) (PStr ''other''))) = Some 3"
    "as_instance py_str (label (labelled_args (PInt 3) (PStr ''c''))) = Some ''c''"
    by (simp_all add: labelled_args_def default_args_def)
  from registry_invariant_and_first_label [OF ok, of numpy_nan_free
      "Array2 [[0, 0, 0, 0], [1, 1, 1, 1]]"
      "labelled_args (PSeq [PInt 1, PInt 2]) (PSeq [PStr ''a'', PStr ''b''])"
      "labelled_args (PInt 3) (PStr ''c'')" 3 "labelled_args (PInt 3) (PStr ''other'')"
      "[1, 3]" "box_at 3 ''c'' fresh" "[1, 3]" "box_at 3 ''other'' (box_at 3 ''c'' fresh)"
      "''c''"]
    ok start args box_at_returned [of 3 "''c''"] box_at_again
  show ?thesis by blast
qed

text \<open>
  C6. If the registry is well formed and the ticks of the axes show it in order (as on a
  new renderer, whose registry is empty), the same holds after every call of
  \<^verbatim>\<open>add_boxplot\<close>: whenever the registry is not empty, the tick locations set last ascend
  and, paired with the tick labels set last, are the pairs of position and label of the
  registry. So each growth of the registry has pushed the whole set, sorted and with the
  labels realigned. After calls at the positions 3, 1 and 2 the locations are 1, 2, 3.
\<close>

theorem ticks_pushed_in_order:
  assumes "registry_ok self" and "ticks_in_order self"
  shows "registry_ok (state_after (add_boxplot np self data a)) \<and>
    ticks_in_order (state_after (add_boxplot np self data a))"
  using assms by (intro add_boxplot_in_order) simp

theorem ticks_pushed_in_order_witness:
  "registry_ok (box_at 1 ''a'' (box_at 3 ''c'' fresh)) \<and>
   ticks_in_order (box_at 1 ''a'' (box_at 3 ''c'' fresh)) \<and>
   registry_ok (box_at 2 ''b'' (box_at 1 ''a'' (box_at 3 ''c'' fresh))) \<and>
   ticks_in_order (box_at 2 ''b'' (box_at 1 ''a'' (box_at 3 ''c'' fresh))) \<and>
   current_positions (box_at 2 ''b'' (box_at 1 ''a'' (box_at 3 ''c'' fresh))) = [3, 1, 2] \<and>
   current_ticklabels (box_at 2 ''b'' (box_at 1 ''a'' (box_at 3 ''c'' fresh)))
     = [''c'', ''a'', ''b''] \<and>
   xticks_of (ax (box_at 2 ''b'' (box_at 1 ''a'' (box_at 3 ''c'' fresh)))) = Some [1, 2, 3] \<and>
   xticklabels_of (ax (box_at 2 ''b'' (box_at 1 ''a'' (box_at 3 ''c'' fresh))))
     = Some [''a'', ''b'', ''c'']"
proof -
  have two: "registry_ok (box_at 1 ''a'' (box_at 3 ''c'' fresh)) \<and>
      ticks_in_order (box_at 1 ''a'' (box_at 3 ''c'' fresh))"
    by (intro box_at_in_order fresh_in_order)
  from two ticks_pushed_in_order [of "box_at 1 ''a'' (box_at 3 ''c'' fresh)" numpy_nan_free
      "Array1 [1, 3]" "labelled_args (PInt 2) (PStr ''b'')"] three_boxes
  show ?thesis
    by (simp add: box_at_def)
qed

end
